theory Spec2Isabelle
  imports Main "HOL-Library.Word"
begin

section \<open>Values shared by the delegation checker\<close>

text \<open>
  The development follows \<^verbatim>\<open>check_delegation.ts\<close> (resolver, decoder, PDA derivation,
  batch variant) and the \<^verbatim>\<open>sendPingTransaction\<close> function of the wallet component.
  Bytes of a \<^verbatim>\<open>Uint8Array\<close> or \<^verbatim>\<open>Buffer\<close> are 8-bit words, JavaScript strings are
  \<^typ>\<open>string\<close>, and \<^verbatim>\<open>number\<close> fields that hold ledger quantities are integers.
\<close>

type_synonym byte = "8 word"

text \<open>
  A value caught by a \<^verbatim>\<open>catch\<close> clause. Both catch clauses of the source test
  \<^verbatim>\<open>error instanceof Error\<close>: an \<^verbatim>\<open>Error\<close> instance carries a message, any other thrown
  value (a string, a plain object, \<^verbatim>\<open>undefined\<close>) is kept as its printed form.
\<close>

datatype js_exn = ErrorObj (message: string) | OtherValue string

subsection \<open>Typed-array slicing\<close>

text \<open>
  \<^verbatim>\<open>data.slice(start, end)\<close> for non-negative indices: both ends are clamped to the
  length of the array, which is what \<^const>\<open>take\<close> and \<^const>\<open>drop\<close> do.
\<close>

definition slice :: "nat \<Rightarrow> nat \<Rightarrow> 'a list \<Rightarrow> 'a list" where
  "slice start end xs = take (end - start) (drop start xs)"

subsection \<open>Base-58 text and public keys\<close>

text \<open>
  Modelled from the spec: the \<^verbatim>\<open>PublicKey\<close> class and its base-58 codec come from the
  imported package \<^verbatim>\<open>@solana/web3.js\<close>, which is not among the sources. The spec's data
  model fixes what is needed here: an account key is 32 raw bytes, written as a base-58
  string, and a string is a key only if it decodes to exactly 32 bytes. The codec below is
  the Bitcoin alphabet one, with one leading \<^verbatim>\<open>1\<close> per leading zero byte; the constructor
  from bytes reads a big-endian number, refuses more than 32 significant bytes and pads
  back to 32 bytes.
\<close>

definition b58_alphabet :: string where
  "b58_alphabet = ''123456789ABCDEFGHJKLMNPQRSTUVWXYZabcdefghijkmnopqrstuvwxyz''"

fun index_of :: "'a \<Rightarrow> 'a list \<Rightarrow> nat option" where
  "index_of x [] = None"
| "index_of x (y # ys) =
     (if x = y then Some 0 else map_option Suc (index_of x ys))"

function b58_digits :: "nat \<Rightarrow> nat list" where
  "b58_digits n = (if n = 0 then [] else b58_digits (n div 58) @ [n mod 58])"
  by pat_completeness auto
termination
  by (relation "measure id") auto

declare b58_digits.simps [simp del]

function bytes_of_nat :: "nat \<Rightarrow> byte list" where
  "bytes_of_nat n = (if n = 0 then [] else bytes_of_nat (n div 256) @ [of_nat (n mod 256)])"
  by pat_completeness auto
termination
  by (relation "measure id") auto

declare bytes_of_nat.simps [simp del]

definition nat_of_bytes :: "byte list \<Rightarrow> nat" where
  "nat_of_bytes bs = foldl (\<lambda>acc b. acc * 256 + unat b) 0 bs"

definition bs58_encode :: "byte list \<Rightarrow> string" where
  "bs58_encode bs =
     (let zeroes = takeWhile (\<lambda>b. b = 0) bs;
          rest = dropWhile (\<lambda>b. b = 0) bs
      in replicate (length zeroes) (CHR ''1'')
         @ map (\<lambda>d. b58_alphabet ! d) (b58_digits (nat_of_bytes rest)))"

fun b58_value :: "nat \<Rightarrow> string \<Rightarrow> nat option" where
  "b58_value acc [] = Some acc"
| "b58_value acc (c # cs) =
     (case index_of c b58_alphabet of
        None \<Rightarrow> None
      | Some d \<Rightarrow> b58_value (acc * 58 + d) cs)"

definition bs58_decode :: "string \<Rightarrow> js_exn + byte list" where
  "bs58_decode s =
     (let ones = takeWhile (\<lambda>c. c = CHR ''1'') s;
          rest = dropWhile (\<lambda>c. c = CHR ''1'') s
      in case b58_value 0 rest of
           None \<Rightarrow> Inl (ErrorObj ''Non-base58 character'')
         | Some n \<Rightarrow> Inr (replicate (length ones) 0 @ bytes_of_nat n))"

datatype PublicKey = PK (toBuffer: "byte list")

definition PUBLIC_KEY_LENGTH :: nat where
  "PUBLIC_KEY_LENGTH = 32"

definition newPublicKey_bytes :: "byte list \<Rightarrow> js_exn + PublicKey" where
  "newPublicKey_bytes bs =
     (let significant = dropWhile (\<lambda>b. b = 0) bs
      in if length significant > PUBLIC_KEY_LENGTH
         then Inl (ErrorObj ''Invalid public key input'')
         else Inr (PK (replicate (PUBLIC_KEY_LENGTH - length significant) 0 @ significant)))"

definition newPublicKey_string :: "string \<Rightarrow> js_exn + PublicKey" where
  "newPublicKey_string s =
     (case bs58_decode s of
        Inl e \<Rightarrow> Inl e
      | Inr decoded \<Rightarrow>
          if length decoded \<noteq> PUBLIC_KEY_LENGTH
          then Inl (ErrorObj ''Invalid public key input'')
          else newPublicKey_bytes decoded)"

definition toString :: "PublicKey \<Rightarrow> string" where
  "toString k = bs58_encode (toBuffer k)"

section \<open>The record decoder\<close>

definition DELEGATION_PROGRAM_STR :: string where
  "DELEGATION_PROGRAM_STR = ''DELeGGvXpWV2fqJUhqcF5ZSYMS4JTLjteaAMARRSaeSh''"

definition DELEGATION_RECORD_DATA_SIZE :: nat where
  "DELEGATION_RECORD_DATA_SIZE = 96"

definition DEFAULT_RPC_URL :: string where
  "DEFAULT_RPC_URL = ''https://api.devnet.solana.com''"

text \<open>
  \<^verbatim>\<open>extractDelegationIdentity\<close>: \<^verbatim>\<open>null\<close> is \<^const>\<open>None\<close>; the constructor call is the only
  place where the function could throw, so the result is a sum.
\<close>

definition extractDelegationIdentity :: "byte list \<Rightarrow> js_exn + PublicKey option" where
  "extractDelegationIdentity data =
     (if length data \<noteq> DELEGATION_RECORD_DATA_SIZE then Inr None
      else case newPublicKey_bytes (slice 8 40 data) of
             Inl e \<Rightarrow> Inl e
           | Inr identity \<Rightarrow> Inr (Some identity))"

section \<open>Ledger records and the result value\<close>

text \<open>
  The account value returned by the network read (\<^verbatim>\<open>AccountInfo<Buffer>\<close>); the rent
  epoch is optional in the library's type.
\<close>

record AccountInfo =
  lamports :: int
  owner :: PublicKey
  data :: "byte list"
  executable :: bool
  rentEpoch :: "int option"

datatype Status = DELEGATED | NOT_DELEGATED

text \<open>The nested objects of \<^verbatim>\<open>DelegationResult\<close>; \<^verbatim>\<open>Array.from\<close> yields numbers.\<close>

record PdaAccount =
  lamports :: int
  owner :: string
  dataLength :: nat
  executable :: bool
  rentEpoch :: "int option"

record RawData =
  discriminator :: "nat list"
  identityBytes :: "nat list"

record DelegationResult =
  accountPubkey :: string
  delegationPDA :: string
  status :: Status
  validatorIdentity :: "string option"
  pdaAccount :: "PdaAccount option"
  rawData :: "RawData option"

section \<open>The environment: network, library search, signer\<close>

text \<open>
  A zero-value transfer and the transaction that carries it, as far as
  \<^verbatim>\<open>sendPingTransaction\<close> touches them.
\<close>

datatype Instruction = Transfer PublicKey PublicKey int

record Transaction =
  instructions :: "Instruction list"
  recentBlockhash :: "string option"
  feePayer :: "PublicKey option"
  signatures :: "byte list list"

text \<open>
  Every request that leaves the process is recorded: the account read (with the endpoint
  of the connection and the address read), the blockhash fetch, the call of the external
  signer, the submission and the confirmation. Console output is not recorded; it does not
  feed back into any result.
\<close>

datatype rpc_call =
    GetAccountInfo string PublicKey
  | GetLatestBlockhash
  | SignTransaction Transaction
  | SendRawTransaction "byte list"
  | ConfirmTransaction string string nat

text \<open>
  What the imported library and the network do is a parameter of the model. A network
  answer may depend on every call made before it. \<^verbatim>\<open>new Connection(url, 'confirmed')\<close>
  sends nothing and may refuse the endpoint; \<^verbatim>\<open>PublicKey.findProgramAddressSync\<close> is the
  library's hash-and-bump search, which returns the address with its bump or throws;
  \<^verbatim>\<open>serialize\<close> is the method of a signed transaction.
\<close>

record web3 =
  newConnection :: "string \<Rightarrow> js_exn option"
  findProgramAddressSync :: "byte list list \<Rightarrow> PublicKey \<Rightarrow> js_exn + PublicKey \<times> nat"
  getAccountInfo :: "rpc_call list \<Rightarrow> string \<Rightarrow> PublicKey \<Rightarrow> js_exn + AccountInfo option"
  getLatestBlockhash :: "rpc_call list \<Rightarrow> js_exn + string \<times> nat"
  serialize :: "Transaction \<Rightarrow> js_exn + byte list"
  sendRawTransaction :: "rpc_call list \<Rightarrow> byte list \<Rightarrow> js_exn + string"
  confirmTransaction :: "rpc_call list \<Rightarrow> string \<Rightarrow> string \<Rightarrow> nat \<Rightarrow> js_exn + unit"

text \<open>
  The text both catch clauses put after their prefix:
  \<^verbatim>\<open>error instanceof Error ? error.message : 'Unknown error'\<close>.
\<close>

fun caught_message :: "js_exn \<Rightarrow> string" where
  "caught_message (ErrorObj m) = m"
| "caught_message (OtherValue v) = ''Unknown error''"

section \<open>PDA derivation\<close>

definition getDelegationRecordPDA :: "web3 \<Rightarrow> PublicKey \<Rightarrow> js_exn + PublicKey" where
  "getDelegationRecordPDA w accountKey =
     (case newPublicKey_string DELEGATION_PROGRAM_STR of
        Inl e \<Rightarrow> Inl e
      | Inr delegationProgram \<Rightarrow>
          (let seeds = [map of_char ''delegation'', toBuffer accountKey]
           in case findProgramAddressSync w seeds delegationProgram of
                Inl e \<Rightarrow> Inl e
              | Inr (pda, bump) \<Rightarrow> Inr pda))"

section \<open>The delegation resolver\<close>

text \<open>\<^verbatim>\<open>rpcUrl || DEFAULT_RPC_URL\<close>: a missing and an empty endpoint both give the default.\<close>

definition finalRpcUrl :: "string option \<Rightarrow> string" where
  "finalRpcUrl rpcUrl =
     (case rpcUrl of
        None \<Rightarrow> DEFAULT_RPC_URL
      | Some u \<Rightarrow> if u = [] then DEFAULT_RPC_URL else u)"

text \<open>
  The body of the \<^verbatim>\<open>try\<close> block of \<^verbatim>\<open>checkDelegation\<close>, statement by statement. The
  result is the value returned or the value thrown, with the calls made so far. The locals
  \<^verbatim>\<open>accountPubkey\<close> and \<^verbatim>\<open>delegationPDA\<close> are \<open>accountKey\<close> and \<open>pda\<close> here, since the
  fields of the result already bear those names.
\<close>

definition checkDelegation_try ::
  "web3 \<Rightarrow> rpc_call list \<Rightarrow> string \<Rightarrow> string option
     \<Rightarrow> (js_exn + DelegationResult) \<times> rpc_call list" where
  "checkDelegation_try w log accountPubkeyStr rpcUrl =
     (case newPublicKey_string accountPubkeyStr of
        Inl e \<Rightarrow> (Inl e, log)
      | Inr accountKey \<Rightarrow>
     (case newConnection w (finalRpcUrl rpcUrl) of
        Some e \<Rightarrow> (Inl e, log)
      | None \<Rightarrow>
     (case getDelegationRecordPDA w accountKey of
        Inl e \<Rightarrow> (Inl e, log)
      | Inr pda \<Rightarrow>
     (let log' = log @ [GetAccountInfo (finalRpcUrl rpcUrl) pda]
      in case getAccountInfo w log (finalRpcUrl rpcUrl) pda of
        Inl e \<Rightarrow> (Inl e, log')
      | Inr pdaAccountInfo \<Rightarrow>
     (let result = \<lparr> accountPubkey = accountPubkeyStr,
                      delegationPDA = toString pda,
                      status = NOT_DELEGATED,
                      validatorIdentity = None,
                      pdaAccount = None,
                      rawData = None \<rparr>
      in case pdaAccountInfo of
        None \<Rightarrow> (Inr result, log')
      | Some info \<Rightarrow>
          if AccountInfo.lamports info = 0 then (Inr result, log')
          else
            (let result = result \<lparr> pdaAccount := Some
                   \<lparr> PdaAccount.lamports = AccountInfo.lamports info,
                     PdaAccount.owner = toString (AccountInfo.owner info),
                     dataLength = length (data info),
                     PdaAccount.executable = AccountInfo.executable info,
                     PdaAccount.rentEpoch = AccountInfo.rentEpoch info \<rparr> \<rparr>
             in case extractDelegationIdentity (data info) of
                  Inl e \<Rightarrow> (Inl e, log')
                | Inr None \<Rightarrow> (Inr result, log')
                | Inr (Some identity) \<Rightarrow>
                    (Inr (result \<lparr> status := DELEGATED,
                                   validatorIdentity := Some (toString identity),
                                   rawData := Some
                                     \<lparr> discriminator = map unat (slice 0 8 (data info)),
                                       identityBytes = map unat (slice 8 40 (data info)) \<rparr> \<rparr>),
                     log')))))))"

text \<open>The \<^verbatim>\<open>catch\<close> clause: whatever was thrown is replaced by one new \<^verbatim>\<open>Error\<close>.\<close>

definition checkDelegation ::
  "web3 \<Rightarrow> rpc_call list \<Rightarrow> string \<Rightarrow> string option
     \<Rightarrow> (js_exn + DelegationResult) \<times> rpc_call list" where
  "checkDelegation w log accountPubkeyStr rpcUrl =
     (case checkDelegation_try w log accountPubkeyStr rpcUrl of
        (Inl error, log') \<Rightarrow>
          (Inl (ErrorObj (''Failed to check delegation: '' @ caught_message error)), log')
      | (Inr result, log') \<Rightarrow> (Inr result, log'))"

subsection \<open>The batch variant\<close>

text \<open>
  The \<^verbatim>\<open>for\<close> loop of \<^verbatim>\<open>checkMultipleDelegations\<close>: \<open>results\<close> is the array pushed to,
  the calls made are threaded from one key to the next.
\<close>

fun checkMultiple_loop ::
  "web3 \<Rightarrow> string option \<Rightarrow> DelegationResult list \<Rightarrow> rpc_call list \<Rightarrow> string list
     \<Rightarrow> DelegationResult list \<times> rpc_call list" where
  "checkMultiple_loop w rpcUrl results log [] = (results, log)"
| "checkMultiple_loop w rpcUrl results log (pubkey # rest) =
     (case checkDelegation w log pubkey rpcUrl of
        (Inr result, log') \<Rightarrow> checkMultiple_loop w rpcUrl (results @ [result]) log' rest
      | (Inl error, log') \<Rightarrow>
          checkMultiple_loop w rpcUrl
            (results @ [\<lparr> accountPubkey = pubkey,
                           delegationPDA = [],
                           status = NOT_DELEGATED,
                           validatorIdentity = None,
                           pdaAccount = None,
                           rawData = None \<rparr>])
            log' rest)"

definition checkMultipleDelegations ::
  "web3 \<Rightarrow> rpc_call list \<Rightarrow> string list \<Rightarrow> string option
     \<Rightarrow> DelegationResult list \<times> rpc_call list" where
  "checkMultipleDelegations w log accountPubkeys rpcUrl =
     checkMultiple_loop w rpcUrl [] log accountPubkeys"

text \<open>What the loop puts into the slot of one key, given the calls made before it.\<close>

definition slot_of :: "web3 \<Rightarrow> rpc_call list \<Rightarrow> string \<Rightarrow> string option \<Rightarrow> DelegationResult" where
  "slot_of w log k url =
     (case fst (checkDelegation w log k url) of
        Inr r \<Rightarrow> r
      | Inl e \<Rightarrow> \<lparr> accountPubkey = k, delegationPDA = [], status = NOT_DELEGATED,
                    validatorIdentity = None, pdaAccount = None, rawData = None \<rparr>)"

section \<open>The ping transaction\<close>

text \<open>
  The \<^verbatim>\<open>try\<close> block of \<^verbatim>\<open>sendPingTransaction\<close>. The connection argument is the
  environment; the signer is the callback the caller passes in, and like the network it
  may answer differently depending on what happened before.
\<close>

definition sendPingTransaction_try ::
  "web3 \<Rightarrow> rpc_call list \<Rightarrow> PublicKey \<Rightarrow> PublicKey
     \<Rightarrow> (rpc_call list \<Rightarrow> Transaction \<Rightarrow> js_exn + Transaction)
     \<Rightarrow> (js_exn + string) \<times> rpc_call list" where
  "sendPingTransaction_try connection log fromPubkey toPubkey signTransaction =
     (let transaction = \<lparr> instructions = [Transfer fromPubkey toPubkey 0],
                           recentBlockhash = None,
                           feePayer = None,
                           signatures = [] \<rparr>;
          log1 = log @ [GetLatestBlockhash]
      in case getLatestBlockhash connection log of
        Inl e \<Rightarrow> (Inl e, log1)
      | Inr (blockhash, lastValidBlockHeight) \<Rightarrow>
     (let transaction = transaction \<lparr> recentBlockhash := Some blockhash,
                                       feePayer := Some fromPubkey \<rparr>;
          log2 = log1 @ [SignTransaction transaction]
      in case signTransaction log1 transaction of
        Inl e \<Rightarrow> (Inl e, log2)
      | Inr signedTransaction \<Rightarrow>
     (case serialize connection signedTransaction of
        Inl e \<Rightarrow> (Inl e, log2)
      | Inr raw \<Rightarrow>
     (let log3 = log2 @ [SendRawTransaction raw]
      in case sendRawTransaction connection log2 raw of
        Inl e \<Rightarrow> (Inl e, log3)
      | Inr signature \<Rightarrow>
     (let log4 = log3 @ [ConfirmTransaction signature blockhash lastValidBlockHeight]
      in case confirmTransaction connection log3 signature blockhash lastValidBlockHeight of
        Inl e \<Rightarrow> (Inl e, log4)
      | Inr _ \<Rightarrow> (Inr signature, log4))))))"

definition sendPingTransaction ::
  "web3 \<Rightarrow> rpc_call list \<Rightarrow> PublicKey \<Rightarrow> PublicKey
     \<Rightarrow> (rpc_call list \<Rightarrow> Transaction \<Rightarrow> js_exn + Transaction)
     \<Rightarrow> (js_exn + string) \<times> rpc_call list" where
  "sendPingTransaction connection log fromPubkey toPubkey signTransaction =
     (case sendPingTransaction_try connection log fromPubkey toPubkey signTransaction of
        (Inl error, log') \<Rightarrow>
          (Inl (ErrorObj (''Failed to send ping transaction: '' @ caught_message error)), log')
      | (Inr signature, log') \<Rightarrow> (Inr signature, log'))"

section \<open>A mock network\<close>

text \<open>
  A stand-in for library and network, used to run the functions on concrete inputs: every
  endpoint is accepted, the address search answers with the reversed key bytes and bump
  255, the account read gives a fixed answer, and the ping calls succeed.
\<close>

definition mock_web3 :: "(js_exn + AccountInfo option) \<Rightarrow> web3" where
  "mock_web3 answer =
     \<lparr> newConnection = (\<lambda>url. None),
       findProgramAddressSync = (\<lambda>seeds programId. Inr (PK (rev (last seeds)), 255)),
       getAccountInfo = (\<lambda>log url address. answer),
       getLatestBlockhash = (\<lambda>log. Inr (''blockhash'', 100)),
       serialize = (\<lambda>tx. Inr [1, 2, 3]),
       sendRawTransaction = (\<lambda>log raw. Inr ''signature''),
       confirmTransaction = (\<lambda>log sig blockhash height. Inr ()) \<rparr>"

text \<open>The all-zero key, written in base 58, and an account holding the given bytes.\<close>

definition zero_key_str :: string where
  "zero_key_str = ''11111111111111111111111111111111''"

definition funded_account :: "int \<Rightarrow> byte list \<Rightarrow> AccountInfo" where
  "funded_account balance bytes =
     \<lparr> AccountInfo.lamports = balance,
       AccountInfo.owner = PK (replicate 32 0),
       data = bytes,
       AccountInfo.executable = False,
       AccountInfo.rentEpoch = Some 0 \<rparr>"

definition sample_record :: "byte list" where
  "sample_record = replicate 8 1 @ replicate 32 2 @ replicate 56 3"

text \<open>A signer that refuses every transaction by throwing the given value.\<close>

definition rejecting_signer ::
  "js_exn \<Rightarrow> rpc_call list \<Rightarrow> Transaction \<Rightarrow> js_exn + Transaction" where
  "rejecting_signer cause log tx = Inl cause"

text \<open>A signer that signs every transaction.\<close>

definition accepting_signer :: "rpc_call list \<Rightarrow> Transaction \<Rightarrow> js_exn + Transaction" where
  "accepting_signer log tx = Inr (tx \<lparr> signatures := [[1]] \<rparr>)"

text \<open>
  The mock network with chosen outcomes for the four steps of the ping that the
  connection and the library perform: blockhash fetch, serialization, submission,
  confirmation.
\<close>

definition ping_web3 ::
  "(js_exn + string \<times> nat) \<Rightarrow> (js_exn + byte list) \<Rightarrow> (js_exn + string) \<Rightarrow> (js_exn + unit)
     \<Rightarrow> web3" where
  "ping_web3 fetched serialized submitted confirmed =
     (mock_web3 (Inr None))
       \<lparr> getLatestBlockhash := (\<lambda>log. fetched),
         serialize := (\<lambda>tx. serialized),
         sendRawTransaction := (\<lambda>log raw. submitted),
         confirmTransaction := (\<lambda>log sig blockhash height. confirmed) \<rparr>"

text \<open>
  The transaction as \<^verbatim>\<open>sendPingTransaction\<close> hands it to the signer: the zero-value
  transfer, the fetched blockhash and the sender as fee payer. It only abbreviates the
  statements about the ping.
\<close>

definition unsigned_ping :: "PublicKey \<Rightarrow> PublicKey \<Rightarrow> string \<Rightarrow> Transaction" where
  "unsigned_ping fromPubkey toPubkey blockhash =
     \<lparr> instructions = [Transfer fromPubkey toPubkey 0],
       recentBlockhash = Some blockhash,
       feePayer = Some fromPubkey,
       signatures = [] \<rparr>"

section \<open>Facts about the library model\<close>

text \<open>
  The two digit conversions recurse on a quotient; on a numeral they unfold one step at a
  time. The program key of the source is a valid key, as are the 32 characters \<^verbatim>\<open>1\<close>.
\<close>

lemma bytes_of_nat_0: "bytes_of_nat 0 = []"
  by (simp add: bytes_of_nat.simps)

lemma bytes_of_nat_numeral:
  "bytes_of_nat (numeral k) =
     bytes_of_nat (numeral k div 256) @ [of_nat (numeral k mod 256)]"
  by (subst bytes_of_nat.simps) simp

lemma delegation_program_key:
  "newPublicKey_string DELEGATION_PROGRAM_STR =
     Inr (PK [181, 183, 0, 225, 242, 87, 58, 192, 204, 6, 34, 1, 52, 74, 207, 151,
              184, 53, 6, 235, 140, 229, 25, 152, 204, 98, 126, 24, 147, 128, 167, 62])"
  by (simp add: newPublicKey_string_def newPublicKey_bytes_def bs58_decode_def
      PUBLIC_KEY_LENGTH_def DELEGATION_PROGRAM_STR_def b58_alphabet_def
      bytes_of_nat_0 bytes_of_nat_numeral)

lemma zero_key: "newPublicKey_string zero_key_str = Inr (PK (replicate 32 0))"
  by (simp add: zero_key_str_def newPublicKey_string_def newPublicKey_bytes_def
      bs58_decode_def PUBLIC_KEY_LENGTH_def bytes_of_nat_0)

lemma not_a_key: "bs58_decode ''not-a-key'' = Inl (ErrorObj ''Non-base58 character'')"
  by (simp add: bs58_decode_def b58_alphabet_def)

lemma takeWhile_zero_replicate:
  "takeWhile (\<lambda>b. b = (0::byte)) bs = replicate (length (takeWhile (\<lambda>b. b = 0) bs)) 0"
  by (induction bs) auto

text \<open>Dropping the leading zero bytes and padding back to the old length changes nothing.\<close>

lemma pad_significant:
  "replicate (length bs - length (dropWhile (\<lambda>b. b = (0::byte)) bs)) 0
     @ dropWhile (\<lambda>b. b = 0) bs = bs"
proof -
  let ?zeroes = "takeWhile (\<lambda>b. b = (0::byte)) bs"
  let ?rest = "dropWhile (\<lambda>b. b = (0::byte)) bs"
  have len: "length bs = length ?zeroes + length ?rest"
    by (metis length_append takeWhile_dropWhile_id)
  have "replicate (length ?zeroes) 0 @ ?rest = bs"
    using takeWhile_zero_replicate [of bs] takeWhile_dropWhile_id [of "\<lambda>b. b = 0" bs]
    by simp
  with len show ?thesis by simp
qed

lemma newPublicKey_bytes_32:
  "length bs = 32 \<Longrightarrow> newPublicKey_bytes bs = Inr (PK bs)"
  using pad_significant [of bs] length_dropWhile_le [of "\<lambda>b. b = 0" bs]
  by (simp add: newPublicKey_bytes_def PUBLIC_KEY_LENGTH_def Let_def)

section \<open>The record decoder: properties\<close>

lemma length_slice_identity: "length d = 96 \<Longrightarrow> length (slice 8 40 d) = 32"
  by (simp add: slice_def)

lemma extract_96:
  "length d = 96 \<Longrightarrow> extractDelegationIdentity d = Inr (Some (PK (slice 8 40 d)))"
  by (simp add: extractDelegationIdentity_def DELEGATION_RECORD_DATA_SIZE_def
      newPublicKey_bytes_32 length_slice_identity)

text \<open>
  Claim C4. On every 96-byte input the decoder does not throw and returns a key whose bytes
  are bytes 8 to 39 of the input; the first eight bytes play no part, so replacing the
  discriminator by any other eight bytes gives the same key.
\<close>

theorem extractDelegationIdentity_accepts_96:
  assumes "length d = 96" and "length disc = 8"
  shows "\<exists>identity. extractDelegationIdentity d = Inr (Some identity)
           \<and> toBuffer identity = slice 8 40 d
           \<and> extractDelegationIdentity (disc @ drop 8 d) = Inr (Some identity)"
proof -
  have "length (disc @ drop 8 d) = 96" using assms by simp
  moreover have "slice 8 40 (disc @ drop 8 d) = slice 8 40 d"
    using assms by (simp add: slice_def)
  ultimately show ?thesis using assms(1) by (simp add: extract_96)
qed

theorem extractDelegationIdentity_accepts_96_witness:
  "length sample_record = 96 \<and> length (replicate 8 (255::byte)) = 8
   \<and> extractDelegationIdentity sample_record = Inr (Some (PK (replicate 32 2)))
   \<and> extractDelegationIdentity (replicate 8 255 @ drop 8 sample_record) = Inr (Some (PK (replicate 32 2)))"
proof -
  have a: "length sample_record = 96" by (simp add: sample_record_def)
  have b: "length (replicate 8 (255::byte)) = 8" by simp
  have c: "slice 8 40 sample_record = replicate 32 2" by (simp add: sample_record_def slice_def)
  from extractDelegationIdentity_accepts_96 [OF a b] obtain identity where
    "extractDelegationIdentity sample_record = Inr (Some identity)"
    "toBuffer identity = slice 8 40 sample_record"
    "extractDelegationIdentity (replicate 8 255 @ drop 8 sample_record) = Inr (Some identity)"
    by blast
  moreover from this c have "identity = PK (replicate 32 2)" by (cases identity) simp
  ultimately show ?thesis using a b by simp
qed

text \<open>
  Claim C5. On every input whose length is not 96 (the lengths 0, 95, 97 and 1000 among
  them) the decoder returns \<^verbatim>\<open>null\<close>: no key and no partial value.
\<close>

theorem extractDelegationIdentity_rejects_other_lengths:
  "length d \<noteq> 96 \<Longrightarrow> extractDelegationIdentity d = Inr None"
  by (simp add: extractDelegationIdentity_def DELEGATION_RECORD_DATA_SIZE_def)

theorem extractDelegationIdentity_rejects_other_lengths_witness:
  "extractDelegationIdentity [] = Inr None
   \<and> extractDelegationIdentity (replicate 95 7) = Inr None
   \<and> extractDelegationIdentity (replicate 97 7) = Inr None
   \<and> extractDelegationIdentity (replicate 1000 7) = Inr None"
  using extractDelegationIdentity_rejects_other_lengths [of "[]"]
    extractDelegationIdentity_rejects_other_lengths [of "replicate 95 7"]
    extractDelegationIdentity_rejects_other_lengths [of "replicate 97 7"]
    extractDelegationIdentity_rejects_other_lengths [of "replicate 1000 7"]
  by simp

section \<open>The resolver: properties\<close>

lemma extract_other:
  "length d \<noteq> 96 \<Longrightarrow> extractDelegationIdentity d = Inr None"
  by (simp add: extractDelegationIdentity_def DELEGATION_RECORD_DATA_SIZE_def)

text \<open>What the resolver does once the account read has answered.\<close>

lemma checkDelegation_try_read:
  assumes "newPublicKey_string s = Inr k"
    and "newConnection w (finalRpcUrl url) = None"
    and "getDelegationRecordPDA w k = Inr pda"
    and "getAccountInfo w log (finalRpcUrl url) pda = Inr answer"
  shows "checkDelegation_try w log s url =
     (let log' = log @ [GetAccountInfo (finalRpcUrl url) pda];
          result = \<lparr> accountPubkey = s, delegationPDA = toString pda, status = NOT_DELEGATED,
                     validatorIdentity = None, pdaAccount = None, rawData = None \<rparr>
      in case answer of
        None \<Rightarrow> (Inr result, log')
      | Some info \<Rightarrow>
          if AccountInfo.lamports info = 0 then (Inr result, log')
          else if length (data info) = 96
          then (Inr (result \<lparr> pdaAccount := Some
                   \<lparr> PdaAccount.lamports = AccountInfo.lamports info,
                     PdaAccount.owner = toString (AccountInfo.owner info),
                     dataLength = length (data info),
                     PdaAccount.executable = AccountInfo.executable info,
                     PdaAccount.rentEpoch = AccountInfo.rentEpoch info \<rparr>,
                   status := DELEGATED,
                   validatorIdentity := Some (toString (PK (slice 8 40 (data info)))),
                   rawData := Some \<lparr> discriminator = map unat (slice 0 8 (data info)),
                                      identityBytes = map unat (slice 8 40 (data info)) \<rparr> \<rparr>), log')
          else (Inr (result \<lparr> pdaAccount := Some
                   \<lparr> PdaAccount.lamports = AccountInfo.lamports info,
                     PdaAccount.owner = toString (AccountInfo.owner info),
                     dataLength = length (data info),
                     PdaAccount.executable = AccountInfo.executable info,
                     PdaAccount.rentEpoch = AccountInfo.rentEpoch info \<rparr> \<rparr>), log'))"
  using assms
  by (simp add: checkDelegation_try_def Let_def extract_96
      extract_other split: option.splits)

lemma checkDelegation_read:
  assumes "newPublicKey_string s = Inr k"
    and "newConnection w (finalRpcUrl url) = None"
    and "getDelegationRecordPDA w k = Inr pda"
    and "getAccountInfo w log (finalRpcUrl url) pda = Inr answer"
  shows "checkDelegation w log s url = checkDelegation_try w log s url"
  using checkDelegation_try_read [OF assms]
  by (simp add: checkDelegation_def Let_def split: option.splits)

text \<open>The mock network at the all-zero key.\<close>

lemma mock_pda:
  "getDelegationRecordPDA (mock_web3 answer) (PK (replicate 32 0)) = Inr (PK (replicate 32 0))"
  by (simp add: getDelegationRecordPDA_def delegation_program_key mock_web3_def)

lemma mock_connection: "newConnection (mock_web3 answer) u = None"
  by (simp add: mock_web3_def)

lemma mock_read: "getAccountInfo (mock_web3 answer) log u a = answer"
  by (simp add: mock_web3_def)

text \<open>
  Claim C1. When the read at the derived address returns an account with a positive balance
  and exactly 96 bytes of data, the resolver returns a result with status DELEGATED, whose
  validator identity is the base-58 text of bytes 8 to 39 of the data and whose raw
  identity bytes are those same 32 bytes.
\<close>

theorem checkDelegation_delegated:
  assumes "newPublicKey_string s = Inr k"
    and "newConnection w (finalRpcUrl url) = None"
    and "getDelegationRecordPDA w k = Inr pda"
    and "getAccountInfo w log (finalRpcUrl url) pda = Inr (Some info)"
    and "AccountInfo.lamports info > 0"
    and "length (data info) = 96"
  shows "\<exists>r. checkDelegation w log s url = (Inr r, log @ [GetAccountInfo (finalRpcUrl url) pda])
           \<and> status r = DELEGATED
           \<and> validatorIdentity r = Some (bs58_encode (slice 8 40 (data info)))
           \<and> map_option identityBytes (rawData r) = Some (map unat (slice 8 40 (data info)))
           \<and> length (slice 8 40 (data info)) = 32"
  using assms(5,6)
  by (simp add: checkDelegation_read [OF assms(1-4)] checkDelegation_try_read [OF assms(1-4)]
      toString_def length_slice_identity)

theorem checkDelegation_delegated_witness:
  "newPublicKey_string zero_key_str = Inr (PK (replicate 32 0))
   \<and> AccountInfo.lamports (funded_account 5 sample_record) > 0
   \<and> length (data (funded_account 5 sample_record)) = 96
   \<and> (\<exists>r. fst (checkDelegation (mock_web3 (Inr (Some (funded_account 5 sample_record))))
                 [] zero_key_str None) = Inr r
          \<and> status r = DELEGATED
          \<and> validatorIdentity r = Some (bs58_encode (replicate 32 2)))"
proof -
  let ?info = "funded_account 5 sample_record"
  let ?w = "mock_web3 (Inr (Some ?info))"
  have a: "AccountInfo.lamports ?info > 0" by (simp add: funded_account_def)
  have b: "length (data ?info) = 96" by (simp add: funded_account_def sample_record_def)
  have c: "slice 8 40 (data ?info) = replicate 32 2"
    by (simp add: funded_account_def sample_record_def slice_def)
  have d: "getAccountInfo ?w [] (finalRpcUrl None) (PK (replicate 32 0)) = Inr (Some ?info)"
    by (rule mock_read)
  from checkDelegation_delegated [OF zero_key mock_connection mock_pda d a b]
  show ?thesis using zero_key a b c by auto
qed

text \<open>
  Claim C2. When the read returns an account with a positive balance whose data is not 96
  bytes long, the result has status NOT_DELEGATED, its metadata (balance, owner, data
  length, executable flag, rent epoch) is copied from the read, and no validator identity
  is set.
\<close>

theorem checkDelegation_malformed_record:
  assumes "newPublicKey_string s = Inr k"
    and "newConnection w (finalRpcUrl url) = None"
    and "getDelegationRecordPDA w k = Inr pda"
    and "getAccountInfo w log (finalRpcUrl url) pda = Inr (Some info)"
    and "AccountInfo.lamports info > 0"
    and "length (data info) \<noteq> 96"
  shows "\<exists>r. checkDelegation w log s url = (Inr r, log @ [GetAccountInfo (finalRpcUrl url) pda])
           \<and> status r = NOT_DELEGATED
           \<and> pdaAccount r = Some
                \<lparr> PdaAccount.lamports = AccountInfo.lamports info,
                  PdaAccount.owner = toString (AccountInfo.owner info),
                  dataLength = length (data info),
                  PdaAccount.executable = AccountInfo.executable info,
                  PdaAccount.rentEpoch = AccountInfo.rentEpoch info \<rparr>
           \<and> validatorIdentity r = None
           \<and> rawData r = None"
  using assms(5,6)
  by (simp add: checkDelegation_read [OF assms(1-4)] checkDelegation_try_read [OF assms(1-4)])

theorem checkDelegation_malformed_record_witness:
  "newPublicKey_string zero_key_str = Inr (PK (replicate 32 0))
   \<and> AccountInfo.lamports (funded_account 5 (replicate 95 1)) > 0
   \<and> length (data (funded_account 5 (replicate 95 1))) \<noteq> 96
   \<and> (\<exists>r. fst (checkDelegation (mock_web3 (Inr (Some (funded_account 5 (replicate 95 1)))))
                 [] zero_key_str None) = Inr r
          \<and> status r = NOT_DELEGATED
          \<and> map_option dataLength (pdaAccount r) = Some 95
          \<and> map_option PdaAccount.lamports (pdaAccount r) = Some 5
          \<and> validatorIdentity r = None)"
proof -
  let ?info = "funded_account 5 (replicate 95 1)"
  let ?w = "mock_web3 (Inr (Some ?info))"
  have a: "AccountInfo.lamports ?info > 0" by (simp add: funded_account_def)
  have b: "length (data ?info) \<noteq> 96" by (simp add: funded_account_def)
  have d: "getAccountInfo ?w [] (finalRpcUrl None) (PK (replicate 32 0)) = Inr (Some ?info)"
    by (rule mock_read)
  from checkDelegation_malformed_record [OF zero_key mock_connection mock_pda d a b]
  show ?thesis using zero_key a b by (auto simp: funded_account_def)
qed

text \<open>
  Claim C3. When the read reports the account at the derived address as absent, or as
  present with a balance of zero, the result has status NOT_DELEGATED and none of
  the optional fields (account metadata, validator identity, raw data) is set.
\<close>

theorem checkDelegation_absent_or_empty:
  assumes "newPublicKey_string s = Inr k"
    and "newConnection w (finalRpcUrl url) = None"
    and "getDelegationRecordPDA w k = Inr pda"
    and "getAccountInfo w log (finalRpcUrl url) pda = Inr answer"
    and "answer = None \<or> (\<exists>info. answer = Some info \<and> AccountInfo.lamports info = 0)"
  shows "checkDelegation w log s url =
           (Inr \<lparr> accountPubkey = s, delegationPDA = toString pda, status = NOT_DELEGATED,
                   validatorIdentity = None, pdaAccount = None, rawData = None \<rparr>,
            log @ [GetAccountInfo (finalRpcUrl url) pda])"
  using assms(5)
  by (auto simp: checkDelegation_read [OF assms(1-4)] checkDelegation_try_read [OF assms(1-4)])

theorem checkDelegation_absent_or_empty_witness:
  "fst (checkDelegation (mock_web3 (Inr None)) [] zero_key_str None) =
     Inr \<lparr> accountPubkey = zero_key_str, delegationPDA = toString (PK (replicate 32 0)),
           status = NOT_DELEGATED, validatorIdentity = None, pdaAccount = None,
           rawData = None \<rparr>
   \<and> fst (checkDelegation (mock_web3 (Inr (Some (funded_account 0 sample_record))))
           [] zero_key_str None) =
     Inr \<lparr> accountPubkey = zero_key_str, delegationPDA = toString (PK (replicate 32 0)),
           status = NOT_DELEGATED, validatorIdentity = None, pdaAccount = None,
           rawData = None \<rparr>"
proof -
  let ?empty = "funded_account 0 sample_record"
  have a: "getAccountInfo (mock_web3 (Inr None)) [] (finalRpcUrl None) (PK (replicate 32 0))
             = Inr None"
    by (rule mock_read)
  have b: "getAccountInfo (mock_web3 (Inr (Some ?empty))) [] (finalRpcUrl None)
             (PK (replicate 32 0)) = Inr (Some ?empty)"
    by (rule mock_read)
  have c: "Some ?empty = None \<or> (\<exists>info. Some ?empty = Some info \<and> AccountInfo.lamports info = 0)"
    by (simp add: funded_account_def)
  have d: "(None :: AccountInfo option) = None
             \<or> (\<exists>info. None = Some info \<and> AccountInfo.lamports info = 0)"
    by simp
  show ?thesis
    using checkDelegation_absent_or_empty [OF zero_key mock_connection mock_pda a d]
      checkDelegation_absent_or_empty [OF zero_key mock_connection mock_pda b c]
    by simp
qed

lemma newPublicKey_string_Inl:
  assumes "\<forall>bs. bs58_decode s = Inr bs \<longrightarrow> length bs \<noteq> 32"
  shows "newPublicKey_string s = Inl (ErrorObj ''Invalid public key input'')
       \<or> newPublicKey_string s = Inl (ErrorObj ''Non-base58 character'')"
proof (cases "bs58_decode s")
  case (Inl e)
  then have "e = ErrorObj ''Non-base58 character''"
    by (auto simp: bs58_decode_def Let_def split: option.splits)
  with Inl show ?thesis by (simp add: newPublicKey_string_def)
next
  case (Inr bs)
  with assms have "length bs \<noteq> 32" by simp
  with Inr show ?thesis by (simp add: newPublicKey_string_def PUBLIC_KEY_LENGTH_def)
qed

lemma checkDelegation_parse_failure:
  "newPublicKey_string s = Inl e \<Longrightarrow>
   checkDelegation w log s url =
     (Inl (ErrorObj (''Failed to check delegation: '' @ caught_message e)), log)"
  by (simp add: checkDelegation_def checkDelegation_try_def)

text \<open>
  Claim C6. For every input string that does not decode to 32 bytes (such as
  \<^verbatim>\<open>not-a-key\<close>), the resolver fails with the error of an invalid input and makes no
  request: the list of calls is the one it started with.
\<close>

theorem checkDelegation_invalid_input:
  assumes "\<forall>bs. bs58_decode s = Inr bs \<longrightarrow> length bs \<noteq> 32"
  shows "snd (checkDelegation w log s url) = log
       \<and> (fst (checkDelegation w log s url) =
             Inl (ErrorObj ''Failed to check delegation: Invalid public key input'')
          \<or> fst (checkDelegation w log s url) =
             Inl (ErrorObj ''Failed to check delegation: Non-base58 character''))"
  using newPublicKey_string_Inl [OF assms]
  by (auto simp: checkDelegation_parse_failure)

theorem checkDelegation_invalid_input_witness:
  "bs58_decode ''not-a-key'' = Inl (ErrorObj ''Non-base58 character'')
   \<and> checkDelegation (mock_web3 (Inr None)) [] ''not-a-key'' None =
       (Inl (ErrorObj ''Failed to check delegation: Non-base58 character''), [])"
proof -
  have h: "\<forall>bs. bs58_decode ''not-a-key'' = Inr bs \<longrightarrow> length bs \<noteq> 32"
    by (simp add: not_a_key)
  have "newPublicKey_string ''not-a-key'' = Inl (ErrorObj ''Non-base58 character'')"
    by (simp add: newPublicKey_string_def not_a_key)
  then have "fst (checkDelegation (mock_web3 (Inr None)) [] ''not-a-key'' None) =
      Inl (ErrorObj ''Failed to check delegation: Non-base58 character'')"
    by (simp add: checkDelegation_parse_failure)
  with checkDelegation_invalid_input [OF h, of "mock_web3 (Inr None)" "[]" None]
  show ?thesis by (simp add: not_a_key prod_eq_iff)
qed

section \<open>The batch variant: properties\<close>

lemma checkMultiple_loop_acc:
  "checkMultiple_loop w url acc log keys =
     (acc @ fst (checkMultiple_loop w url [] log keys),
      snd (checkMultiple_loop w url [] log keys))"
proof (induction keys arbitrary: acc log)
  case Nil
  show ?case by simp
next
  case (Cons k ks)
  obtain r log' where step: "checkDelegation w log k url = (r, log')"
    by (cases "checkDelegation w log k url")
  show ?case
  proof (cases r)
    case (Inl e)
    with step show ?thesis
      using Cons.IH [of "acc @ [\<lparr> accountPubkey = k, delegationPDA = [], status = NOT_DELEGATED,
          validatorIdentity = None, pdaAccount = None, rawData = None \<rparr>]" log']
        Cons.IH [of "[\<lparr> accountPubkey = k, delegationPDA = [], status = NOT_DELEGATED,
          validatorIdentity = None, pdaAccount = None, rawData = None \<rparr>]" log']
      by simp
  next
    case (Inr res)
    with step show ?thesis
      using Cons.IH [of "acc @ [res]" log'] Cons.IH [of "[res]" log'] by simp
  qed
qed

lemma checkMultipleDelegations_Nil:
  "checkMultipleDelegations w log [] url = ([], log)"
  by (simp add: checkMultipleDelegations_def)

lemma checkMultipleDelegations_Cons:
  "checkMultipleDelegations w log (k # ks) url =
     (slot_of w log k url
        # fst (checkMultipleDelegations w (snd (checkDelegation w log k url)) ks url),
      snd (checkMultipleDelegations w (snd (checkDelegation w log k url)) ks url))"
proof -
  obtain r log' where step: "checkDelegation w log k url = (r, log')"
    by (cases "checkDelegation w log k url")
  show ?thesis
  proof (cases r)
    case (Inl e)
    with step show ?thesis
      using checkMultiple_loop_acc [of w url "[\<lparr> accountPubkey = k, delegationPDA = [],
          status = NOT_DELEGATED, validatorIdentity = None, pdaAccount = None,
          rawData = None \<rparr>]" log' ks]
      by (simp add: checkMultipleDelegations_def slot_of_def)
  next
    case (Inr res)
    with step show ?thesis
      using checkMultiple_loop_acc [of w url "[res]" log' ks]
      by (simp add: checkMultipleDelegations_def slot_of_def)
  qed
qed

lemma batch_length:
  "length (fst (checkMultipleDelegations w log keys url)) = length keys"
  by (induction keys arbitrary: log)
    (simp_all add: checkMultipleDelegations_Nil checkMultipleDelegations_Cons)

lemma batch_nth:
  "i < length keys \<Longrightarrow>
   fst (checkMultipleDelegations w log keys url) ! i =
     slot_of w (snd (checkMultipleDelegations w log (take i keys) url)) (keys ! i) url"
proof (induction keys arbitrary: log i)
  case Nil
  then show ?case by simp
next
  case (Cons k ks)
  show ?case
  proof (cases i)
    case 0
    then show ?thesis
      by (simp add: checkMultipleDelegations_Cons checkMultipleDelegations_Nil)
  next
    case (Suc j)
    with Cons.prems have "j < length ks" by simp
    from Cons.IH [OF this] Suc show ?thesis
      by (simp add: checkMultipleDelegations_Cons)
  qed
qed

text \<open>The mock network at the two keys used in the scenarios.\<close>

lemma mock_check_delegated:
  "checkDelegation (mock_web3 (Inr (Some (funded_account 5 sample_record)))) log zero_key_str None =
     (Inr \<lparr> accountPubkey = zero_key_str,
            delegationPDA = toString (PK (replicate 32 0)),
            status = DELEGATED,
            validatorIdentity = Some (toString (PK (replicate 32 2))),
            pdaAccount = Some \<lparr> PdaAccount.lamports = 5,
                                 PdaAccount.owner = toString (PK (replicate 32 0)),
                                 dataLength = 96,
                                 PdaAccount.executable = False,
                                 PdaAccount.rentEpoch = Some 0 \<rparr>,
            rawData = Some \<lparr> discriminator = replicate 8 1,
                              identityBytes = replicate 32 2 \<rparr> \<rparr>,
      log @ [GetAccountInfo DEFAULT_RPC_URL (PK (replicate 32 0))])"
proof -
  let ?info = "funded_account 5 sample_record"
  have d: "getAccountInfo (mock_web3 (Inr (Some ?info))) log (finalRpcUrl None)
             (PK (replicate 32 0)) = Inr (Some ?info)"
    by (rule mock_read)
  have e: "slice 8 40 (data ?info) = replicate 32 2" "slice 0 8 (data ?info) = replicate 8 1"
    "length (data ?info) = 96" "AccountInfo.lamports ?info = 5"
    "AccountInfo.owner ?info = PK (replicate 32 0)" "AccountInfo.executable ?info = False"
    "AccountInfo.rentEpoch ?info = Some 0"
    by (simp_all add: funded_account_def sample_record_def slice_def)
  have "checkDelegation (mock_web3 (Inr (Some ?info))) log zero_key_str None =
      checkDelegation_try (mock_web3 (Inr (Some ?info))) log zero_key_str None"
    by (rule checkDelegation_read [OF zero_key mock_connection mock_pda d])
  also have "\<dots> = (Inr \<lparr> accountPubkey = zero_key_str,
            delegationPDA = toString (PK (replicate 32 0)),
            status = DELEGATED,
            validatorIdentity = Some (toString (PK (replicate 32 2))),
            pdaAccount = Some \<lparr> PdaAccount.lamports = 5,
                                 PdaAccount.owner = toString (PK (replicate 32 0)),
                                 dataLength = 96,
                                 PdaAccount.executable = False,
                                 PdaAccount.rentEpoch = Some 0 \<rparr>,
            rawData = Some \<lparr> discriminator = replicate 8 1,
                              identityBytes = replicate 32 2 \<rparr> \<rparr>,
      log @ [GetAccountInfo DEFAULT_RPC_URL (PK (replicate 32 0))])"
    unfolding checkDelegation_try_read [OF zero_key mock_connection mock_pda d]
    by (simp add: e finalRpcUrl_def)
  finally show ?thesis .
qed

lemma mock_check_not_a_key:
  "checkDelegation w log ''not-a-key'' url =
     (Inl (ErrorObj ''Failed to check delegation: Non-base58 character''), log)"
proof -
  have "newPublicKey_string ''not-a-key'' = Inl (ErrorObj ''Non-base58 character'')"
    by (simp add: newPublicKey_string_def not_a_key)
  then show ?thesis by (simp add: checkDelegation_parse_failure)
qed

text \<open>
  Claim C7. For every list of key strings the batch variant returns one result per key, in
  the order of the input, and it always returns: the slot of a key whose own resolution
  fails holds the placeholder (status NOT_DELEGATED, empty PDA string), every other slot
  holds what the resolver returned for that key after the calls made for the keys before
  it.
\<close>

theorem checkMultipleDelegations_slots:
  "length (fst (checkMultipleDelegations w log keys url)) = length keys
   \<and> (\<forall>i < length keys.
        fst (checkMultipleDelegations w log keys url) ! i =
          (case fst (checkDelegation w
                       (snd (checkMultipleDelegations w log (take i keys) url))
                       (keys ! i) url) of
             Inr r \<Rightarrow> r
           | Inl e \<Rightarrow> \<lparr> accountPubkey = keys ! i, delegationPDA = [],
                         status = NOT_DELEGATED, validatorIdentity = None,
                         pdaAccount = None, rawData = None \<rparr>))"
  using batch_nth [of _ keys w log url]
  by (simp add: batch_length slot_of_def)

theorem checkMultipleDelegations_slots_witness:
  "length (fst (checkMultipleDelegations
                  (mock_web3 (Inr (Some (funded_account 5 sample_record)))) []
                  [zero_key_str, ''not-a-key'', zero_key_str] None)) = 3
   \<and> fst (checkMultipleDelegations
            (mock_web3 (Inr (Some (funded_account 5 sample_record)))) []
            [zero_key_str, ''not-a-key'', zero_key_str] None) ! 1 =
       \<lparr> accountPubkey = ''not-a-key'', delegationPDA = [], status = NOT_DELEGATED,
         validatorIdentity = None, pdaAccount = None, rawData = None \<rparr>
   \<and> status (fst (checkMultipleDelegations
            (mock_web3 (Inr (Some (funded_account 5 sample_record)))) []
            [zero_key_str, ''not-a-key'', zero_key_str] None) ! 2) = DELEGATED"
proof -
  let ?w = "mock_web3 (Inr (Some (funded_account 5 sample_record)))"
  let ?keys = "[zero_key_str, ''not-a-key'', zero_key_str]"
  let ?out = "fst (checkMultipleDelegations ?w [] ?keys None)"
  from checkMultipleDelegations_slots [of ?w "[]" ?keys None]
  have len: "length ?out = length ?keys"
    and slots: "\<forall>i < length ?keys. ?out ! i =
      (case fst (checkDelegation ?w (snd (checkMultipleDelegations ?w [] (take i ?keys) None))
                   (?keys ! i) None) of
         Inr r \<Rightarrow> r
       | Inl e \<Rightarrow> \<lparr> accountPubkey = ?keys ! i, delegationPDA = [], status = NOT_DELEGATED,
                     validatorIdentity = None, pdaAccount = None, rawData = None \<rparr>)"
    by blast+
  from slots [rule_format, of 1] have one: "?out ! 1 =
      (case fst (checkDelegation ?w (snd (checkMultipleDelegations ?w [] (take 1 ?keys) None))
                   (?keys ! 1) None) of
         Inr r \<Rightarrow> r
       | Inl e \<Rightarrow> \<lparr> accountPubkey = ?keys ! 1, delegationPDA = [], status = NOT_DELEGATED,
                     validatorIdentity = None, pdaAccount = None, rawData = None \<rparr>)"
    by simp
  from slots [rule_format, of 2] have two: "?out ! 2 =
      (case fst (checkDelegation ?w (snd (checkMultipleDelegations ?w [] (take 2 ?keys) None))
                   (?keys ! 2) None) of
         Inr r \<Rightarrow> r
       | Inl e \<Rightarrow> \<lparr> accountPubkey = ?keys ! 2, delegationPDA = [], status = NOT_DELEGATED,
                     validatorIdentity = None, pdaAccount = None, rawData = None \<rparr>)"
    by simp
  from len have "length ?out = 3" by simp
  moreover from one have "?out ! 1 =
       \<lparr> accountPubkey = ''not-a-key'', delegationPDA = [], status = NOT_DELEGATED,
         validatorIdentity = None, pdaAccount = None, rawData = None \<rparr>"
    by (simp add: mock_check_not_a_key)
  moreover from two have "status (?out ! 2) = DELEGATED"
    by (simp add: mock_check_delegated)
  ultimately show ?thesis by blast
qed

section \<open>Shape of the results\<close>

lemma checkDelegation_try_success:
  assumes "checkDelegation_try w log s url = (Inr r, log')"
  shows "(validatorIdentity r \<noteq> None \<longleftrightarrow> status r = DELEGATED)
       \<and> (rawData r \<noteq> None \<longleftrightarrow> status r = DELEGATED)
       \<and> accountPubkey r = s
       \<and> (\<exists>k pda. newPublicKey_string s = Inr k \<and> getDelegationRecordPDA w k = Inr pda
              \<and> delegationPDA r = toString pda)"
  using assms
  by (auto simp: checkDelegation_try_def Let_def
      split: sum.splits option.splits if_splits)

lemma checkDelegation_success:
  "checkDelegation w log s url = (Inr r, log') \<Longrightarrow>
   checkDelegation_try w log s url = (Inr r, log')"
  by (auto simp: checkDelegation_def split: prod.splits sum.splits)

lemma slot_of_shape:
  "(validatorIdentity (slot_of w log k url) \<noteq> None \<longleftrightarrow> status (slot_of w log k url) = DELEGATED)
   \<and> (rawData (slot_of w log k url) \<noteq> None \<longleftrightarrow> status (slot_of w log k url) = DELEGATED)
   \<and> accountPubkey (slot_of w log k url) = k"
proof (cases "checkDelegation w log k url")
  case (Pair res log')
  show ?thesis
  proof (cases res)
    case (Inl e)
    with Pair show ?thesis by (simp add: slot_of_def)
  next
    case (Inr r)
    with Pair have "checkDelegation_try w log k url = (Inr r, log')"
      by (simp add: checkDelegation_success)
    from checkDelegation_try_success [OF this] Pair Inr show ?thesis
      by (simp add: slot_of_def)
  qed
qed

text \<open>
  Claim C10. In every result of a successful resolver call the validator identity and the
  raw data are present exactly when the status is DELEGATED, and the field
  \<^verbatim>\<open>accountPubkey\<close> is the caller's input string; the same holds for every slot of a
  batch result, placeholders included.
\<close>

theorem checkDelegation_result_shape:
  "(checkDelegation w log s url = (Inr r, log') \<longrightarrow>
      (validatorIdentity r \<noteq> None \<longleftrightarrow> status r = DELEGATED)
      \<and> (rawData r \<noteq> None \<longleftrightarrow> status r = DELEGATED)
      \<and> accountPubkey r = s)
   \<and> (\<forall>i < length keys.
        (validatorIdentity (fst (checkMultipleDelegations w log keys url) ! i) \<noteq> None
           \<longleftrightarrow> status (fst (checkMultipleDelegations w log keys url) ! i) = DELEGATED)
        \<and> (rawData (fst (checkMultipleDelegations w log keys url) ! i) \<noteq> None
           \<longleftrightarrow> status (fst (checkMultipleDelegations w log keys url) ! i) = DELEGATED)
        \<and> accountPubkey (fst (checkMultipleDelegations w log keys url) ! i) = keys ! i)"
proof (rule conjI)
  show "checkDelegation w log s url = (Inr r, log') \<longrightarrow>
      (validatorIdentity r \<noteq> None \<longleftrightarrow> status r = DELEGATED)
      \<and> (rawData r \<noteq> None \<longleftrightarrow> status r = DELEGATED)
      \<and> accountPubkey r = s"
  proof
    assume "checkDelegation w log s url = (Inr r, log')"
    then have "checkDelegation_try w log s url = (Inr r, log')"
      by (rule checkDelegation_success)
    from checkDelegation_try_success [OF this]
    show "(validatorIdentity r \<noteq> None \<longleftrightarrow> status r = DELEGATED)
        \<and> (rawData r \<noteq> None \<longleftrightarrow> status r = DELEGATED)
        \<and> accountPubkey r = s"
      by blast
  qed
next
  show "\<forall>i < length keys.
        (validatorIdentity (fst (checkMultipleDelegations w log keys url) ! i) \<noteq> None
           \<longleftrightarrow> status (fst (checkMultipleDelegations w log keys url) ! i) = DELEGATED)
        \<and> (rawData (fst (checkMultipleDelegations w log keys url) ! i) \<noteq> None
           \<longleftrightarrow> status (fst (checkMultipleDelegations w log keys url) ! i) = DELEGATED)
        \<and> accountPubkey (fst (checkMultipleDelegations w log keys url) ! i) = keys ! i"
  proof (intro allI impI)
    fix i assume "i < length keys"
    then have "fst (checkMultipleDelegations w log keys url) ! i =
        slot_of w (snd (checkMultipleDelegations w log (take i keys) url)) (keys ! i) url"
      by (rule batch_nth)
    then show "(validatorIdentity (fst (checkMultipleDelegations w log keys url) ! i) \<noteq> None
             \<longleftrightarrow> status (fst (checkMultipleDelegations w log keys url) ! i) = DELEGATED)
          \<and> (rawData (fst (checkMultipleDelegations w log keys url) ! i) \<noteq> None
             \<longleftrightarrow> status (fst (checkMultipleDelegations w log keys url) ! i) = DELEGATED)
          \<and> accountPubkey (fst (checkMultipleDelegations w log keys url) ! i) = keys ! i"
      using slot_of_shape [of w "snd (checkMultipleDelegations w log (take i keys) url)"
          "keys ! i" url]
      by simp
  qed
qed

theorem checkDelegation_result_shape_witness:
  "(\<exists>r. fst (checkDelegation (mock_web3 (Inr (Some (funded_account 5 sample_record))))
               [] zero_key_str None) = Inr r
        \<and> status r = DELEGATED
        \<and> validatorIdentity r = Some (toString (PK (replicate 32 2)))
        \<and> accountPubkey r = zero_key_str)
   \<and> accountPubkey (fst (checkMultipleDelegations
          (mock_web3 (Inr (Some (funded_account 5 sample_record)))) []
          [zero_key_str, ''not-a-key''] None) ! 1) = ''not-a-key''"
proof -
  let ?w = "mock_web3 (Inr (Some (funded_account 5 sample_record)))"
  let ?keys = "[zero_key_str, ''not-a-key'']"
  let ?r = "\<lparr> accountPubkey = zero_key_str,
            delegationPDA = toString (PK (replicate 32 0)),
            status = DELEGATED,
            validatorIdentity = Some (toString (PK (replicate 32 2))),
            pdaAccount = Some \<lparr> PdaAccount.lamports = 5,
                                 PdaAccount.owner = toString (PK (replicate 32 0)),
                                 dataLength = 96,
                                 PdaAccount.executable = False,
                                 PdaAccount.rentEpoch = Some 0 \<rparr>,
            rawData = Some \<lparr> discriminator = replicate 8 1,
                              identityBytes = replicate 32 2 \<rparr> \<rparr>"
  have run: "checkDelegation ?w [] zero_key_str None =
      (Inr ?r, [] @ [GetAccountInfo DEFAULT_RPC_URL (PK (replicate 32 0))])"
    by (rule mock_check_delegated)
  from checkDelegation_result_shape
    [of ?w "[]" zero_key_str None ?r "[] @ [GetAccountInfo DEFAULT_RPC_URL (PK (replicate 32 0))]" ?keys]
  have single: "checkDelegation ?w [] zero_key_str None =
      (Inr ?r, [] @ [GetAccountInfo DEFAULT_RPC_URL (PK (replicate 32 0))]) \<longrightarrow>
      accountPubkey ?r = zero_key_str"
    and batch: "\<forall>i < length ?keys.
      accountPubkey (fst (checkMultipleDelegations ?w [] ?keys None) ! i) = ?keys ! i"
    by blast+
  from batch [rule_format, of 1]
  have "accountPubkey (fst (checkMultipleDelegations ?w [] ?keys None) ! 1) = ''not-a-key''"
    by simp
  moreover from single run have "fst (checkDelegation ?w [] zero_key_str None) = Inr ?r
      \<and> status ?r = DELEGATED
      \<and> validatorIdentity ?r = Some (toString (PK (replicate 32 2)))
      \<and> accountPubkey ?r = zero_key_str"
    by simp
  ultimately show ?thesis by blast
qed

section \<open>PDA derivation: properties\<close>

text \<open>The search is called on the text \<^verbatim>\<open>delegation\<close>, the key bytes and the program key.\<close>

lemma getDelegationRecordPDA_seeds:
  "getDelegationRecordPDA w k =
     (case findProgramAddressSync w
             [[100, 101, 108, 101, 103, 97, 116, 105, 111, 110], toBuffer k]
             (PK [181, 183, 0, 225, 242, 87, 58, 192, 204, 6, 34, 1, 52, 74, 207, 151,
                  184, 53, 6, 235, 140, 229, 25, 152, 204, 98, 126, 24, 147, 128, 167, 62]) of
        Inl e \<Rightarrow> Inl e
      | Inr (pda, bump) \<Rightarrow> Inr pda)"
  by (simp add: getDelegationRecordPDA_def delegation_program_key)

text \<open>
  Claim C9. The derived address is a function of the key and the fixed program alone. The
  model function takes no list of calls and returns none, as the source function does no
  input or output; and whatever the endpoint, the answers of the network and the calls made
  before, two resolver calls on the same key string report the same derived address.
\<close>

theorem getDelegationRecordPDA_deterministic:
  assumes "findProgramAddressSync w = findProgramAddressSync w'"
  shows "getDelegationRecordPDA w k = getDelegationRecordPDA w' k
       \<and> (\<forall>r r' l l'. checkDelegation w log s url = (Inr r, l)
              \<and> checkDelegation w' log' s url' = (Inr r', l')
            \<longrightarrow> delegationPDA r = delegationPDA r')"
proof -
  have same: "getDelegationRecordPDA w k = getDelegationRecordPDA w' k" for k
    unfolding getDelegationRecordPDA_def assms by (rule refl)
  have "delegationPDA r = delegationPDA r'"
    if runs: "checkDelegation w log s url = (Inr r, l)
        \<and> checkDelegation w' log' s url' = (Inr r', l')" for r r' l l'
  proof -
    from runs have first: "checkDelegation_try w log s url = (Inr r, l)"
      and second: "checkDelegation_try w' log' s url' = (Inr r', l')"
      by (simp_all add: checkDelegation_success)
    from checkDelegation_try_success [OF first] obtain k1 pda1 where
      "newPublicKey_string s = Inr k1" "getDelegationRecordPDA w k1 = Inr pda1"
      "delegationPDA r = toString pda1"
      by blast
    moreover from checkDelegation_try_success [OF second] obtain k2 pda2 where
      "newPublicKey_string s = Inr k2" "getDelegationRecordPDA w' k2 = Inr pda2"
      "delegationPDA r' = toString pda2"
      by blast
    ultimately show ?thesis using same [of k1] by simp
  qed
  with same show ?thesis by blast
qed

lemma mock_search:
  "findProgramAddressSync (mock_web3 a) = findProgramAddressSync (mock_web3 b)"
  by (simp add: mock_web3_def)

lemma mock_check_absent:
  "checkDelegation (mock_web3 (Inr None)) log zero_key_str url =
     (Inr \<lparr> accountPubkey = zero_key_str, delegationPDA = toString (PK (replicate 32 0)),
            status = NOT_DELEGATED, validatorIdentity = None, pdaAccount = None,
            rawData = None \<rparr>,
      log @ [GetAccountInfo (finalRpcUrl url) (PK (replicate 32 0))])"
proof -
  have d: "getAccountInfo (mock_web3 (Inr None)) log (finalRpcUrl url) (PK (replicate 32 0))
             = Inr None"
    by (rule mock_read)
  show ?thesis
    unfolding checkDelegation_read [OF zero_key mock_connection mock_pda d]
      checkDelegation_try_read [OF zero_key mock_connection mock_pda d]
    by simp
qed

theorem getDelegationRecordPDA_deterministic_witness:
  "findProgramAddressSync (mock_web3 (Inr (Some (funded_account 5 sample_record))))
     = findProgramAddressSync (mock_web3 (Inr None))
   \<and> (\<exists>r r'. fst (checkDelegation (mock_web3 (Inr (Some (funded_account 5 sample_record))))
                    [] zero_key_str None) = Inr r
        \<and> fst (checkDelegation (mock_web3 (Inr None)) [GetLatestBlockhash] zero_key_str
                 (Some ''http://localhost:8899'')) = Inr r'
        \<and> status r = DELEGATED \<and> status r' = NOT_DELEGATED
        \<and> delegationPDA r = delegationPDA r')"
proof -
  let ?w = "mock_web3 (Inr (Some (funded_account 5 sample_record)))"
  let ?w' = "mock_web3 (Inr None)"
  let ?r = "\<lparr> accountPubkey = zero_key_str,
            delegationPDA = toString (PK (replicate 32 0)),
            status = DELEGATED,
            validatorIdentity = Some (toString (PK (replicate 32 2))),
            pdaAccount = Some \<lparr> PdaAccount.lamports = 5,
                                 PdaAccount.owner = toString (PK (replicate 32 0)),
                                 dataLength = 96,
                                 PdaAccount.executable = False,
                                 PdaAccount.rentEpoch = Some 0 \<rparr>,
            rawData = Some \<lparr> discriminator = replicate 8 1,
                              identityBytes = replicate 32 2 \<rparr> \<rparr>"
  let ?r' = "\<lparr> accountPubkey = zero_key_str, delegationPDA = toString (PK (replicate 32 0)),
            status = NOT_DELEGATED, validatorIdentity = None, pdaAccount = None,
            rawData = None \<rparr>"
  have h: "findProgramAddressSync ?w = findProgramAddressSync ?w'" by (rule mock_search)
  have run: "checkDelegation ?w [] zero_key_str None =
      (Inr ?r, [] @ [GetAccountInfo DEFAULT_RPC_URL (PK (replicate 32 0))])"
    by (rule mock_check_delegated)
  have run': "checkDelegation ?w' [GetLatestBlockhash] zero_key_str (Some ''http://localhost:8899'') =
      (Inr ?r', [GetLatestBlockhash]
          @ [GetAccountInfo (finalRpcUrl (Some ''http://localhost:8899'')) (PK (replicate 32 0))])"
    by (rule mock_check_absent)
  from getDelegationRecordPDA_deterministic [OF h, of "PK (replicate 32 0)" "[]" zero_key_str None
      "[GetLatestBlockhash]" "Some ''http://localhost:8899''"] run run'
  have "delegationPDA ?r = delegationPDA ?r'" by blast
  with h run run' show ?thesis by simp
qed

section \<open>The ping transaction: properties\<close>

text \<open>
  The five places where the body of \<^verbatim>\<open>sendPingTransaction\<close> can throw, in the order of
  the source, and the one way through without a throw. Each lemma gives the result and
  the calls made.
\<close>

lemma ping_blockhash_fails:
  assumes "getLatestBlockhash c log = Inl cause"
  shows "sendPingTransaction c log fromKey toKey sign =
     (Inl (ErrorObj (''Failed to send ping transaction: '' @ caught_message cause)),
      log @ [GetLatestBlockhash])"
  using assms by (simp add: sendPingTransaction_def sendPingTransaction_try_def)

lemma ping_signer_fails:
  assumes "getLatestBlockhash c log = Inr (blockhash, height)"
    and "sign (log @ [GetLatestBlockhash]) (unsigned_ping fromKey toKey blockhash) = Inl cause"
  shows "sendPingTransaction c log fromKey toKey sign =
     (Inl (ErrorObj (''Failed to send ping transaction: '' @ caught_message cause)),
      log @ [GetLatestBlockhash, SignTransaction (unsigned_ping fromKey toKey blockhash)])"
  using assms
  by (simp add: sendPingTransaction_def sendPingTransaction_try_def unsigned_ping_def)

lemma ping_serialize_fails:
  assumes "getLatestBlockhash c log = Inr (blockhash, height)"
    and "sign (log @ [GetLatestBlockhash]) (unsigned_ping fromKey toKey blockhash) = Inr signedTx"
    and "serialize c signedTx = Inl cause"
  shows "sendPingTransaction c log fromKey toKey sign =
     (Inl (ErrorObj (''Failed to send ping transaction: '' @ caught_message cause)),
      log @ [GetLatestBlockhash, SignTransaction (unsigned_ping fromKey toKey blockhash)])"
  using assms
  by (simp add: sendPingTransaction_def sendPingTransaction_try_def unsigned_ping_def)

lemma ping_submit_fails:
  assumes "getLatestBlockhash c log = Inr (blockhash, height)"
    and "sign (log @ [GetLatestBlockhash]) (unsigned_ping fromKey toKey blockhash) = Inr signedTx"
    and "serialize c signedTx = Inr raw"
    and "sendRawTransaction c
           (log @ [GetLatestBlockhash, SignTransaction (unsigned_ping fromKey toKey blockhash)])
           raw = Inl cause"
  shows "sendPingTransaction c log fromKey toKey sign =
     (Inl (ErrorObj (''Failed to send ping transaction: '' @ caught_message cause)),
      log @ [GetLatestBlockhash, SignTransaction (unsigned_ping fromKey toKey blockhash),
             SendRawTransaction raw])"
  using assms
  by (simp add: sendPingTransaction_def sendPingTransaction_try_def unsigned_ping_def)

lemma ping_confirm_fails:
  assumes "getLatestBlockhash c log = Inr (blockhash, height)"
    and "sign (log @ [GetLatestBlockhash]) (unsigned_ping fromKey toKey blockhash) = Inr signedTx"
    and "serialize c signedTx = Inr raw"
    and "sendRawTransaction c
           (log @ [GetLatestBlockhash, SignTransaction (unsigned_ping fromKey toKey blockhash)])
           raw = Inr signature"
    and "confirmTransaction c
           (log @ [GetLatestBlockhash, SignTransaction (unsigned_ping fromKey toKey blockhash),
                   SendRawTransaction raw])
           signature blockhash height = Inl cause"
  shows "sendPingTransaction c log fromKey toKey sign =
     (Inl (ErrorObj (''Failed to send ping transaction: '' @ caught_message cause)),
      log @ [GetLatestBlockhash, SignTransaction (unsigned_ping fromKey toKey blockhash),
             SendRawTransaction raw, ConfirmTransaction signature blockhash height])"
  using assms
  by (simp add: sendPingTransaction_def sendPingTransaction_try_def unsigned_ping_def)

lemma ping_confirmed:
  assumes "getLatestBlockhash c log = Inr (blockhash, height)"
    and "sign (log @ [GetLatestBlockhash]) (unsigned_ping fromKey toKey blockhash) = Inr signedTx"
    and "serialize c signedTx = Inr raw"
    and "sendRawTransaction c
           (log @ [GetLatestBlockhash, SignTransaction (unsigned_ping fromKey toKey blockhash)])
           raw = Inr signature"
    and "confirmTransaction c
           (log @ [GetLatestBlockhash, SignTransaction (unsigned_ping fromKey toKey blockhash),
                   SendRawTransaction raw])
           signature blockhash height = Inr ok"
  shows "sendPingTransaction c log fromKey toKey sign =
     (Inr signature,
      log @ [GetLatestBlockhash, SignTransaction (unsigned_ping fromKey toKey blockhash),
             SendRawTransaction raw, ConfirmTransaction signature blockhash height])"
  using assms
  by (simp add: sendPingTransaction_def sendPingTransaction_try_def unsigned_ping_def)

text \<open>
  Claim C8, as the code has it. When the signer throws, the ping fails with one new
  \<^verbatim>\<open>Error\<close> whose message is the fixed prefix followed by the message of what was
  thrown if that is an \<^verbatim>\<open>Error\<close>, and by \<^verbatim>\<open>Unknown error\<close> otherwise; the calls made are
  the blockhash fetch and the signer call, so nothing is submitted or confirmed. A failure
  of any other step (the blockhash fetch, the serialization, the submission, the
  confirmation) ends in one \<^verbatim>\<open>Error\<close> built in the same way from what that step threw,
  after exactly the calls up to that step; and when no step throws, the signature is
  returned.
\<close>

theorem sendPingTransaction_failure:
  "(getLatestBlockhash c log = Inr (blockhash, height)
      \<and> sign (log @ [GetLatestBlockhash]) (unsigned_ping fromKey toKey blockhash) = Inl cause
    \<longrightarrow> sendPingTransaction c log fromKey toKey sign =
          (Inl (ErrorObj (''Failed to send ping transaction: '' @ caught_message cause)),
           log @ [GetLatestBlockhash,
                  SignTransaction (unsigned_ping fromKey toKey blockhash)]))
   \<and> (getLatestBlockhash c log = Inl cause
    \<longrightarrow> sendPingTransaction c log fromKey toKey sign =
          (Inl (ErrorObj (''Failed to send ping transaction: '' @ caught_message cause)),
           log @ [GetLatestBlockhash]))
   \<and> (getLatestBlockhash c log = Inr (blockhash, height)
      \<and> sign (log @ [GetLatestBlockhash]) (unsigned_ping fromKey toKey blockhash) = Inr signedTx
      \<and> serialize c signedTx = Inl cause
    \<longrightarrow> sendPingTransaction c log fromKey toKey sign =
          (Inl (ErrorObj (''Failed to send ping transaction: '' @ caught_message cause)),
           log @ [GetLatestBlockhash,
                  SignTransaction (unsigned_ping fromKey toKey blockhash)]))
   \<and> (getLatestBlockhash c log = Inr (blockhash, height)
      \<and> sign (log @ [GetLatestBlockhash]) (unsigned_ping fromKey toKey blockhash) = Inr signedTx
      \<and> serialize c signedTx = Inr raw
      \<and> sendRawTransaction c
           (log @ [GetLatestBlockhash, SignTransaction (unsigned_ping fromKey toKey blockhash)])
           raw = Inl cause
    \<longrightarrow> sendPingTransaction c log fromKey toKey sign =
          (Inl (ErrorObj (''Failed to send ping transaction: '' @ caught_message cause)),
           log @ [GetLatestBlockhash,
                  SignTransaction (unsigned_ping fromKey toKey blockhash),
                  SendRawTransaction raw]))
   \<and> (getLatestBlockhash c log = Inr (blockhash, height)
      \<and> sign (log @ [GetLatestBlockhash]) (unsigned_ping fromKey toKey blockhash) = Inr signedTx
      \<and> serialize c signedTx = Inr raw
      \<and> sendRawTransaction c
           (log @ [GetLatestBlockhash, SignTransaction (unsigned_ping fromKey toKey blockhash)])
           raw = Inr signature
      \<and> confirmTransaction c
           (log @ [GetLatestBlockhash, SignTransaction (unsigned_ping fromKey toKey blockhash),
                   SendRawTransaction raw])
           signature blockhash height = Inl cause
    \<longrightarrow> sendPingTransaction c log fromKey toKey sign =
          (Inl (ErrorObj (''Failed to send ping transaction: '' @ caught_message cause)),
           log @ [GetLatestBlockhash,
                  SignTransaction (unsigned_ping fromKey toKey blockhash),
                  SendRawTransaction raw,
                  ConfirmTransaction signature blockhash height]))
   \<and> (getLatestBlockhash c log = Inr (blockhash, height)
      \<and> sign (log @ [GetLatestBlockhash]) (unsigned_ping fromKey toKey blockhash) = Inr signedTx
      \<and> serialize c signedTx = Inr raw
      \<and> sendRawTransaction c
           (log @ [GetLatestBlockhash, SignTransaction (unsigned_ping fromKey toKey blockhash)])
           raw = Inr signature
      \<and> confirmTransaction c
           (log @ [GetLatestBlockhash, SignTransaction (unsigned_ping fromKey toKey blockhash),
                   SendRawTransaction raw])
           signature blockhash height = Inr ok
    \<longrightarrow> sendPingTransaction c log fromKey toKey sign =
          (Inr signature,
           log @ [GetLatestBlockhash,
                  SignTransaction (unsigned_ping fromKey toKey blockhash),
                  SendRawTransaction raw,
                  ConfirmTransaction signature blockhash height]))"
  using ping_signer_fails [of c log blockhash height sign fromKey toKey cause]
    ping_blockhash_fails [of c log cause fromKey toKey sign]
    ping_serialize_fails [of c log blockhash height sign fromKey toKey signedTx cause]
    ping_submit_fails [of c log blockhash height sign fromKey toKey signedTx raw cause]
    ping_confirm_fails [of c log blockhash height sign fromKey toKey signedTx raw signature cause]
    ping_confirmed [of c log blockhash height sign fromKey toKey signedTx raw signature ok]
  by blast

theorem sendPingTransaction_failure_witness:
  "sendPingTransaction
       (ping_web3 (Inr (''blockhash'', 100)) (Inr [1, 2, 3])
           (Inr ''signature'') (Inr ()))
       [] (PK (replicate 32 0)) (PK (replicate 32 1))
       (rejecting_signer (ErrorObj ''User rejected the request'')) =
       (Inl (ErrorObj ''Failed to send ping transaction: User rejected the request''),
        [GetLatestBlockhash,
         SignTransaction (unsigned_ping (PK (replicate 32 0)) (PK (replicate 32 1)) ''blockhash'')])
   \<and> sendPingTransaction
       (ping_web3 (Inl (ErrorObj ''failed to get recent blockhash'')) (Inr [1, 2, 3])
           (Inr ''signature'') (Inr ()))
       [] (PK (replicate 32 0)) (PK (replicate 32 1))
       (accepting_signer) =
       (Inl (ErrorObj ''Failed to send ping transaction: failed to get recent blockhash''),
        [GetLatestBlockhash])
   \<and> sendPingTransaction
       (ping_web3 (Inr (''blockhash'', 100)) (Inl (ErrorObj ''Signature verification failed''))
           (Inr ''signature'') (Inr ()))
       [] (PK (replicate 32 0)) (PK (replicate 32 1))
       (accepting_signer) =
       (Inl (ErrorObj ''Failed to send ping transaction: Signature verification failed''),
        [GetLatestBlockhash,
         SignTransaction (unsigned_ping (PK (replicate 32 0)) (PK (replicate 32 1)) ''blockhash'')])
   \<and> sendPingTransaction
       (ping_web3 (Inr (''blockhash'', 100)) (Inr [1, 2, 3])
           (Inl (ErrorObj ''Transaction simulation failed'')) (Inr ()))
       [] (PK (replicate 32 0)) (PK (replicate 32 1))
       (accepting_signer) =
       (Inl (ErrorObj ''Failed to send ping transaction: Transaction simulation failed''),
        [GetLatestBlockhash,
         SignTransaction (unsigned_ping (PK (replicate 32 0)) (PK (replicate 32 1)) ''blockhash''),
         SendRawTransaction [1, 2, 3]])
   \<and> sendPingTransaction
       (ping_web3 (Inr (''blockhash'', 100)) (Inr [1, 2, 3])
           (Inr ''signature'') (Inl (ErrorObj ''block height exceeded'')))
       [] (PK (replicate 32 0)) (PK (replicate 32 1))
       (accepting_signer) =
       (Inl (ErrorObj ''Failed to send ping transaction: block height exceeded''),
        [GetLatestBlockhash,
         SignTransaction (unsigned_ping (PK (replicate 32 0)) (PK (replicate 32 1)) ''blockhash''),
         SendRawTransaction [1, 2, 3],
         ConfirmTransaction ''signature'' ''blockhash'' 100])
   \<and> sendPingTransaction
       (ping_web3 (Inr (''blockhash'', 100)) (Inr [1, 2, 3])
           (Inr ''signature'') (Inr ()))
       [] (PK (replicate 32 0)) (PK (replicate 32 1))
       (accepting_signer) =
       (Inr ''signature'',
        [GetLatestBlockhash,
         SignTransaction (unsigned_ping (PK (replicate 32 0)) (PK (replicate 32 1)) ''blockhash''),
         SendRawTransaction [1, 2, 3],
         ConfirmTransaction ''signature'' ''blockhash'' 100])"
proof -
  let ?signedTx = "(unsigned_ping (PK (replicate 32 0)) (PK (replicate 32 1)) ''blockhash'') \<lparr> signatures := [[1]] \<rparr>"
  have signer_rejects:
    "sendPingTransaction
       (ping_web3 (Inr (''blockhash'', 100)) (Inr [1, 2, 3])
           (Inr ''signature'') (Inr ()))
       [] (PK (replicate 32 0)) (PK (replicate 32 1))
       (rejecting_signer (ErrorObj ''User rejected the request'')) =
       (Inl (ErrorObj ''Failed to send ping transaction: User rejected the request''),
        [GetLatestBlockhash,
         SignTransaction (unsigned_ping (PK (replicate 32 0)) (PK (replicate 32 1)) ''blockhash'')])"
    using sendPingTransaction_failure
      [where c = "ping_web3 (Inr (''blockhash'', 100)) (Inr [1, 2, 3])
            (Inr ''signature'') (Inr ())"
        and log = "[]" and blockhash = "''blockhash''" and height = 100
        and fromKey = "PK (replicate 32 0)" and toKey = "PK (replicate 32 1)"
        and sign = "rejecting_signer (ErrorObj ''User rejected the request'')"
        and cause = "ErrorObj ''User rejected the request''"
        and signedTx = ?signedTx and raw = "[1, 2, 3]"
        and signature = "''signature''" and ok = "()"]
    by (simp add: ping_web3_def mock_web3_def accepting_signer_def rejecting_signer_def)
  have fetch_fails:
    "sendPingTransaction
       (ping_web3 (Inl (ErrorObj ''failed to get recent blockhash'')) (Inr [1, 2, 3])
           (Inr ''signature'') (Inr ()))
       [] (PK (replicate 32 0)) (PK (replicate 32 1))
       (accepting_signer) =
       (Inl (ErrorObj ''Failed to send ping transaction: failed to get recent blockhash''),
        [GetLatestBlockhash])"
    using sendPingTransaction_failure
      [where c = "ping_web3 (Inl (ErrorObj ''failed to get recent blockhash'')) (Inr [1, 2, 3])
            (Inr ''signature'') (Inr ())"
        and log = "[]" and blockhash = "''blockhash''" and height = 100
        and fromKey = "PK (replicate 32 0)" and toKey = "PK (replicate 32 1)"
        and sign = "accepting_signer"
        and cause = "ErrorObj ''failed to get recent blockhash''"
        and signedTx = ?signedTx and raw = "[1, 2, 3]"
        and signature = "''signature''" and ok = "()"]
    by (simp add: ping_web3_def mock_web3_def accepting_signer_def rejecting_signer_def)
  have serialize_fails:
    "sendPingTransaction
       (ping_web3 (Inr (''blockhash'', 100)) (Inl (ErrorObj ''Signature verification failed''))
           (Inr ''signature'') (Inr ()))
       [] (PK (replicate 32 0)) (PK (replicate 32 1))
       (accepting_signer) =
       (Inl (ErrorObj ''Failed to send ping transaction: Signature verification failed''),
        [GetLatestBlockhash,
         SignTransaction (unsigned_ping (PK (replicate 32 0)) (PK (replicate 32 1)) ''blockhash'')])"
    using sendPingTransaction_failure
      [where c = "ping_web3 (Inr (''blockhash'', 100)) (Inl (ErrorObj ''Signature verification failed''))
            (Inr ''signature'') (Inr ())"
        and log = "[]" and blockhash = "''blockhash''" and height = 100
        and fromKey = "PK (replicate 32 0)" and toKey = "PK (replicate 32 1)"
        and sign = "accepting_signer"
        and cause = "ErrorObj ''Signature verification failed''"
        and signedTx = ?signedTx and raw = "[1, 2, 3]"
        and signature = "''signature''" and ok = "()"]
    by (simp add: ping_web3_def mock_web3_def accepting_signer_def rejecting_signer_def)
  have submit_fails:
    "sendPingTransaction
       (ping_web3 (Inr (''blockhash'', 100)) (Inr [1, 2, 3])
           (Inl (ErrorObj ''Transaction simulation failed'')) (Inr ()))
       [] (PK (replicate 32 0)) (PK (replicate 32 1))
       (accepting_signer) =
       (Inl (ErrorObj ''Failed to send ping transaction: Transaction simulation failed''),
        [GetLatestBlockhash,
         SignTransaction (unsigned_ping (PK (replicate 32 0)) (PK (replicate 32 1)) ''blockhash''),
         SendRawTransaction [1, 2, 3]])"
    using sendPingTransaction_failure
      [where c = "ping_web3 (Inr (''blockhash'', 100)) (Inr [1, 2, 3])
            (Inl (ErrorObj ''Transaction simulation failed'')) (Inr ())"
        and log = "[]" and blockhash = "''blockhash''" and height = 100
        and fromKey = "PK (replicate 32 0)" and toKey = "PK (replicate 32 1)"
        and sign = "accepting_signer"
        and cause = "ErrorObj ''Transaction simulation failed''"
        and signedTx = ?signedTx and raw = "[1, 2, 3]"
        and signature = "''signature''" and ok = "()"]
    by (simp add: ping_web3_def mock_web3_def accepting_signer_def rejecting_signer_def)
  have confirm_fails:
    "sendPingTransaction
       (ping_web3 (Inr (''blockhash'', 100)) (Inr [1, 2, 3])
           (Inr ''signature'') (Inl (ErrorObj ''block height exceeded'')))
       [] (PK (replicate 32 0)) (PK (replicate 32 1))
       (accepting_signer) =
       (Inl (ErrorObj ''Failed to send ping transaction: block height exceeded''),
        [GetLatestBlockhash,
         SignTransaction (unsigned_ping (PK (replicate 32 0)) (PK (replicate 32 1)) ''blockhash''),
         SendRawTransaction [1, 2, 3],
         ConfirmTransaction ''signature'' ''blockhash'' 100])"
    using sendPingTransaction_failure
      [where c = "ping_web3 (Inr (''blockhash'', 100)) (Inr [1, 2, 3])
            (Inr ''signature'') (Inl (ErrorObj ''block height exceeded''))"
        and log = "[]" and blockhash = "''blockhash''" and height = 100
        and fromKey = "PK (replicate 32 0)" and toKey = "PK (replicate 32 1)"
        and sign = "accepting_signer"
        and cause = "ErrorObj ''block height exceeded''"
        and signedTx = ?signedTx and raw = "[1, 2, 3]"
        and signature = "''signature''" and ok = "()"]
    by (simp add: ping_web3_def mock_web3_def accepting_signer_def rejecting_signer_def)
  have all_succeed:
    "sendPingTransaction
       (ping_web3 (Inr (''blockhash'', 100)) (Inr [1, 2, 3])
           (Inr ''signature'') (Inr ()))
       [] (PK (replicate 32 0)) (PK (replicate 32 1))
       (accepting_signer) =
       (Inr ''signature'',
        [GetLatestBlockhash,
         SignTransaction (unsigned_ping (PK (replicate 32 0)) (PK (replicate 32 1)) ''blockhash''),
         SendRawTransaction [1, 2, 3],
         ConfirmTransaction ''signature'' ''blockhash'' 100])"
    using sendPingTransaction_failure
      [where c = "ping_web3 (Inr (''blockhash'', 100)) (Inr [1, 2, 3])
            (Inr ''signature'') (Inr ())"
        and log = "[]" and blockhash = "''blockhash''" and height = 100
        and fromKey = "PK (replicate 32 0)" and toKey = "PK (replicate 32 1)"
        and sign = "accepting_signer"
        and cause = "ErrorObj []"
        and signedTx = ?signedTx and raw = "[1, 2, 3]"
        and signature = "''signature''" and ok = "()"]
    by (simp add: ping_web3_def mock_web3_def accepting_signer_def rejecting_signer_def)
  from signer_rejects fetch_fails serialize_fails submit_fails confirm_fails all_succeed
  show ?thesis by blast
qed

text \<open>
  The claim as written fails where the signer throws something that is not an
  \<^verbatim>\<open>Error\<close>: two different causes give the same error, which names neither.
\<close>

theorem sendPingTransaction_cause_lost:
  "fst (sendPingTransaction (mock_web3 (Inr None)) [] (PK (replicate 32 0)) (PK (replicate 32 1))
          (rejecting_signer (OtherValue ''User rejected the request'')))
     = Inl (ErrorObj ''Failed to send ping transaction: Unknown error'')
   \<and> fst (sendPingTransaction (mock_web3 (Inr None)) [] (PK (replicate 32 0)) (PK (replicate 32 1))
          (rejecting_signer (OtherValue ''Wallet is locked'')))
     = Inl (ErrorObj ''Failed to send ping transaction: Unknown error'')"
  by (simp add: sendPingTransaction_def sendPingTransaction_try_def mock_web3_def
      rejecting_signer_def)

end
